theory Spec2Isabelle
  imports Main "HOL-Library.Word"
begin

section \<open>Values of the document format\<close>

text \<open>
  The package builds its queries from \<^verbatim>\<open>bson.M\<close>, the Go type
  \<^verbatim>\<open>map[string]interface{}\<close>. A map value in Go is either \<^verbatim>\<open>nil\<close> or a table:
  reading a \<^verbatim>\<open>nil\<close> map finds no key, writing to it panics. So a \<^verbatim>\<open>bson.M\<close> is an
  optional finite table, \<open>None\<close> being the \<^verbatim>\<open>nil\<close> map.

  An \<^verbatim>\<open>interface{}\<close> holds a value together with its dynamic type. \<open>bval\<close> lists the
  dynamic types a query document is built from; \<open>VM\<close> is the one the type assertion
  \<^verbatim>\<open>val.(bson.M)\<close> accepts, and it may hold a \<^verbatim>\<open>nil\<close> map. Maps are modelled by
  value: a \<open>bval\<close> is the finite tree that is reachable from the Go value.
\<close>

type_synonym Time = int
  \<comment> \<open>a reading of \<^verbatim>\<open>time.Now()\<close>\<close>

type_synonym ObjectID = "96 word"
  \<comment> \<open>\<^verbatim>\<open>primitive.ObjectID\<close>, a \<^verbatim>\<open>[12]byte\<close>; the all-zero value is \<^verbatim>\<open>primitive.NilObjectID\<close>\<close>

datatype bval =
    VNil                                   \<comment> \<open>the \<^verbatim>\<open>nil\<close> interface\<close>
  | VString string
  | VInt64 "64 word"
  | VBool bool
  | VTime Time                             \<comment> \<open>\<^verbatim>\<open>time.Time\<close>\<close>
  | VObjectID ObjectID
  | VM "(string \<Rightarrow> bval option) option"    \<comment> \<open>\<^verbatim>\<open>bson.M\<close>\<close>
  | VD "(string \<times> bval) list"              \<comment> \<open>\<^verbatim>\<open>bson.D\<close>, an ordered document\<close>
  | VA "bval list"                         \<comment> \<open>\<^verbatim>\<open>bson.A\<close>\<close>

type_synonym M = "(string \<Rightarrow> bval option) option"

datatype panic =
    InterfaceConversion    \<comment> \<open>a failed type assertion \<^verbatim>\<open>x.(T)\<close>\<close>
  | NilMapAssignment       \<comment> \<open>assignment to an entry in a \<^verbatim>\<open>nil\<close> map\<close>
  | ConfigFailure string   \<comment> \<open>\<^verbatim>\<open>envconfig.MustProcess\<close> panicking with the error of \<^verbatim>\<open>Process\<close>\<close>

datatype error =
    ErrNoDocuments         \<comment> \<open>\<^verbatim>\<open>mongo.ErrNoDocuments\<close>\<close>
  | ErrOther string        \<comment> \<open>any other error value of the driver\<close>

section \<open>The environment of a call\<close>

text \<open>
  \<^verbatim>\<open>time.Now()\<close> and \<^verbatim>\<open>primitive.NewObjectID()\<close> read the outside world. The world is
  passed explicitly: \<open>clock\<close> gives the reading of the n-th call of \<^verbatim>\<open>time.Now()\<close>,
  \<open>oids\<close> the identifier returned by the n-th call of \<^verbatim>\<open>NewObjectID()\<close>, and the two
  counters say how many calls were made so far. \<open>db\<close> is the state of the database
  behind the driver.
\<close>

record 's world =
  clock :: "nat \<Rightarrow> Time"
  ticks :: nat
  oids :: "nat \<Rightarrow> ObjectID"
  minted :: nat
  db :: 's

definition time_Now :: "'s world \<Rightarrow> Time \<times> 's world" where
  "time_Now w = (clock w (ticks w), w\<lparr>ticks := Suc (ticks w)\<rparr>)"

definition NewObjectID :: "'s world \<Rightarrow> ObjectID \<times> 's world" where
  "NewObjectID w = (oids w (minted w), w\<lparr>minted := Suc (minted w)\<rparr>)"

section \<open>The entity envelope (collection.go)\<close>

record Entity =
  ID :: ObjectID
  CreatedAt :: Time
  UpdatedAt :: Time
  DeletedAt :: "Time option"     \<comment> \<open>\<^verbatim>\<open>*time.Time\<close>, \<open>None\<close> is \<^verbatim>\<open>nil\<close>\<close>

text \<open>
  The anonymous struct of \<^verbatim>\<open>newRecord\<close>, fields \<open>E\<close> and \<open>V\<close>. Go evaluates the
  calls of the composite literal from left to right: the identifier first, then one
  clock reading for \<^verbatim>\<open>CreatedAt\<close> and a second one for \<^verbatim>\<open>UpdatedAt\<close>. \<^verbatim>\<open>DeletedAt\<close> is
  not mentioned in the literal and keeps its zero value \<^verbatim>\<open>nil\<close>.
\<close>

record 'v wrapped =
  E :: Entity
  V :: 'v

definition newRecord :: "'v \<Rightarrow> 's world \<Rightarrow> 'v wrapped \<times> 's world" where
  "newRecord v w =
     (let (i, w1) = NewObjectID w;
          (c, w2) = time_Now w1;
          (u, w3) = time_Now w2
      in (\<lparr>E = \<lparr>ID = i, CreatedAt = c, UpdatedAt = u, DeletedAt = None\<rparr>, V = v\<rparr>, w3))"

text \<open>
  The wrapper is encoded by the driver's struct codec, which first describes the struct
  type from its fields and their \<^verbatim>\<open>bson\<close> tags. A field that is not inlined gives one
  element, named by its tag. For a field tagged \<^verbatim>\<open>inline\<close> the codec looks at the kind
  of the field's static type: a struct (or a pointer to a struct) is described in turn
  and its elements are placed in the same document, a map is accepted, and every
  other kind is refused with the error \<^verbatim>\<open>inline fields must be a struct, a struct
  pointer, or a map\<close>. The codec belongs to the driver and is modelled from its
  behaviour; its checks on inline maps and on duplicate names are left out.

  \<open>Entity_fields\<close> are the fields of \<^verbatim>\<open>Entity\<close> with their tags \<^verbatim>\<open>bson:"_id"\<close>,
  \<^verbatim>\<open>bson:"created_at"\<close>, \<^verbatim>\<open>bson:"update_at"\<close> and \<^verbatim>\<open>bson:"deleted_at"\<close>.
  \<open>wrapped_fields\<close> are the two fields of the wrapper, both tagged \<^verbatim>\<open>bson:",inline"\<close>:
  \<^verbatim>\<open>E\<close> of the struct type \<^verbatim>\<open>Entity\<close>, and \<^verbatim>\<open>V\<close> of the static type \<^verbatim>\<open>any\<close>, an interface
  type whatever value it holds.
\<close>

datatype gotype = TStruct "sfield list" | TPtr gotype | TMap | TInterface | TOther
and sfield = SField string bool gotype
  \<comment> \<open>the name of the element, whether the field is tagged \<^verbatim>\<open>inline\<close>, the static type\<close>

definition inline_refused :: error where
  "inline_refused = ErrOther ''inline fields must be a struct, a struct pointer, or a map''"

fun describeStruct :: "sfield list \<Rightarrow> error + string list" where
  "describeStruct [] = Inr []"
| "describeStruct (SField name False ty # rest) =
     (case describeStruct rest of Inl err \<Rightarrow> Inl err | Inr names \<Rightarrow> Inr (name # names))"
| "describeStruct (SField name True (TStruct fs) # rest) =
     (case describeStruct fs of
        Inl err \<Rightarrow> Inl err
      | Inr inlined \<Rightarrow>
          (case describeStruct rest of Inl err \<Rightarrow> Inl err | Inr names \<Rightarrow> Inr (inlined @ names)))"
| "describeStruct (SField name True (TPtr (TStruct fs)) # rest) =
     (case describeStruct fs of
        Inl err \<Rightarrow> Inl err
      | Inr inlined \<Rightarrow>
          (case describeStruct rest of Inl err \<Rightarrow> Inl err | Inr names \<Rightarrow> Inr (inlined @ names)))"
| "describeStruct (SField name True TMap # rest) = describeStruct rest"
| "describeStruct (SField name True ty # rest) = Inl inline_refused"

definition Entity_fields :: "sfield list" where
  "Entity_fields =
     [SField ''_id'' False TOther,
      SField ''created_at'' False (TStruct []),
      SField ''update_at'' False (TStruct []),
      SField ''deleted_at'' False (TPtr (TStruct []))]"

definition wrapped_fields :: "sfield list" where
  "wrapped_fields = [SField ''e'' True (TStruct Entity_fields), SField ''v'' True TInterface]"

section \<open>The option model (collection.go)\<close>

text \<open>
  The struct \<^verbatim>\<open>option\<close>. \<^verbatim>\<open>Pipeline\<close> is a slice and \<^verbatim>\<open>Skip\<close>, \<^verbatim>\<open>Limit\<close> are pointers:
  \<open>None\<close> is \<^verbatim>\<open>nil\<close> for each of them.
\<close>

record option' =
  Filter :: M
  Update :: M
  Sort :: M
  Projection :: M
  Pipeline :: "M list option"
  Skip :: "64 word option"
  Limit :: "64 word option"

text \<open>
  An \<^verbatim>\<open>Option\<close> is a \<^verbatim>\<open>func(*option)\<close>: it receives the option built so far and
  leaves the next one behind. The mutators are the caller's; a \<^verbatim>\<open>nil\<close> function value
  and a mutator that panics or does not return are not modelled.
\<close>

type_synonym Option = "option' \<Rightarrow> option'"

definition zero_option :: option' where
  "zero_option = \<lparr>Filter = None, Update = None, Sort = None, Projection = None,
                  Pipeline = None, Skip = None, Limit = None\<rparr>"

text \<open>The loop of \<^verbatim>\<open>bindOptions\<close>, started on \<^verbatim>\<open>&option{}\<close>.\<close>

fun bindLoop :: "option' \<Rightarrow> Option list \<Rightarrow> option'" where
  "bindLoop opt [] = opt"
| "bindLoop opt (f # fs) = bindLoop (f opt) fs"

definition bindOptions :: "Option list \<Rightarrow> option'" where
  "bindOptions options = bindLoop zero_option options"

text \<open>
  \<^verbatim>\<open>options.FindOptions\<close> of the driver, restricted to the fields that
  \<^verbatim>\<open>findOptions\<close> sets. \<^verbatim>\<open>Sort\<close> and \<^verbatim>\<open>Projection\<close> have type \<^verbatim>\<open>interface{}\<close> there, so
  the \<^verbatim>\<open>bson.M\<close> is stored with its dynamic type; \<^verbatim>\<open>Skip\<close> and \<^verbatim>\<open>Limit\<close> are the same
  pointers.
\<close>

record FindOptions =
  fo_Sort :: bval
  fo_Skip :: "64 word option"
  fo_Limit :: "64 word option"
  fo_Projection :: bval

definition findOptions :: "option' \<Rightarrow> FindOptions" where
  "findOptions o' =
     \<lparr>fo_Sort = VM (Sort o'), fo_Skip = Skip o', fo_Limit = Limit o',
      fo_Projection = VM (Projection o')\<rparr>"

text \<open>
  \<^verbatim>\<open>setUpdate\<close>. A missing \<^verbatim>\<open>Update\<close> becomes the empty map. Without a \<^verbatim>\<open>"$set"\<close> key the
  key is bound to a new map holding the stamp. With one, the value is asserted to be a
  \<^verbatim>\<open>bson.M\<close> (a panic otherwise) and the stamp is written into that map (a panic when
  the map is \<^verbatim>\<open>nil\<close>). A panic leaves no result behind. Go writes into the maps in
  place; the model returns the option whose \<^verbatim>\<open>Update\<close> has the content of the map
  after the call.
\<close>

definition setUpdate :: "option' \<Rightarrow> 's world \<Rightarrow> panic + (option' \<times> 's world)" where
  "setUpdate o' w =
     (let u = (case Update o' of None \<Rightarrow> Map.empty | Some m \<Rightarrow> m) in
      case u ''$set'' of
        None \<Rightarrow>
          (let (t, w1) = time_Now w
           in Inr (o'\<lparr>Update := Some (u(''$set'' \<mapsto> VM (Some [''updated_at'' \<mapsto> VTime t])))\<rparr>, w1))
      | Some (VM s) \<Rightarrow>
          (let (t, w1) = time_Now w
           in case s of
                None \<Rightarrow> Inl NilMapAssignment
              | Some m \<Rightarrow>
                  Inr (o'\<lparr>Update := Some (u(''$set'' \<mapsto> VM (Some (m(''updated_at'' \<mapsto> VTime t)))))\<rparr>, w1))
      | Some _ \<Rightarrow> Inl InterfaceConversion)"

text \<open>\<^verbatim>\<open>setSoftDelete\<close>: the \<^verbatim>\<open>"$set"\<close> key is bound to a new map, whatever it held.\<close>

definition setSoftDelete :: "option' \<Rightarrow> 's world \<Rightarrow> option' \<times> 's world" where
  "setSoftDelete o' w =
     (let u = (case Update o' of None \<Rightarrow> Map.empty | Some m \<Rightarrow> m);
          (t, w1) = time_Now w
      in (o'\<lparr>Update := Some (u(''$set'' \<mapsto> VM (Some [''deleted_at'' \<mapsto> VTime t])))\<rparr>, w1))"

section \<open>The driver\<close>

text \<open>
  \<^verbatim>\<open>*mongo.Collection\<close> belongs to the driver, not to this package. It is a parameter
  of the model: one function for each method the package calls, from the arguments the
  package passes and the state of the database to the method's result and the next
  state. The context argument is not modelled.

  \<^verbatim>\<open>FindOne\<close> returns a \<^verbatim>\<open>*mongo.SingleResult\<close>. By the driver's documentation its
  \<^verbatim>\<open>Decode\<close> returns the error of the operation if there was one, returns
  \<^verbatim>\<open>ErrNoDocuments\<close> if the operation returned no document, and otherwise unmarshals the
  document into the target. \<open>Document t e\<close> stands for a document whose unmarshalling
  into a zero value leaves \<open>t\<close> in the target and returns \<open>e\<close>.
\<close>

datatype 'T SingleResult = OpError error | NoDocument | Document 'T "error option"

fun Decode :: "'T SingleResult \<Rightarrow> 'T \<Rightarrow> 'T \<times> error option" where
  "Decode (OpError e) model = (model, Some e)"
| "Decode NoDocument model = (model, Some ErrNoDocuments)"
| "Decode (Document t e) model = (t, e)"

record ('T, 'c, 's) Collection =
  zero_T :: 'T     \<comment> \<open>the zero value of \<^verbatim>\<open>T\<close>, what \<^verbatim>\<open>var model T\<close> declares\<close>
  c_InsertOne :: "'T wrapped \<Rightarrow> 's \<Rightarrow> error option \<times> 's"
  c_InsertMany :: "'T wrapped list \<Rightarrow> 's \<Rightarrow> error option \<times> 's"
  c_FindOne :: "M \<Rightarrow> 's \<Rightarrow> 'T SingleResult \<times> 's"
  c_Find :: "M \<Rightarrow> FindOptions \<Rightarrow> 's \<Rightarrow> (error + 'c) \<times> 's"
  c_UpdateOne :: "M \<Rightarrow> M \<Rightarrow> 's \<Rightarrow> error option \<times> 's"
  c_UpdateMany :: "M \<Rightarrow> M \<Rightarrow> 's \<Rightarrow> error option \<times> 's"
  c_DeleteOne :: "M \<Rightarrow> 's \<Rightarrow> error option \<times> 's"
  c_DeleteMany :: "M \<Rightarrow> 's \<Rightarrow> error option \<times> 's"
  c_CountDocuments :: "M \<Rightarrow> 's \<Rightarrow> (64 word \<times> error option) \<times> 's"
  c_Aggregate :: "M list option \<Rightarrow> 's \<Rightarrow> (error + 'c) \<times> 's"
  c_All :: "'c \<Rightarrow> 's \<Rightarrow> (error + 'T list) \<times> 's"     \<comment> \<open>\<^verbatim>\<open>cursor.All\<close>\<close>

definition call :: "('s \<Rightarrow> 'r \<times> 's) \<Rightarrow> 's world \<Rightarrow> 'r \<times> 's world" where
  "call f w = (let (r, s) = f (db w) in (r, w\<lparr>db := s\<rparr>))"

section \<open>The typed collection (collection.go)\<close>

definition InsertOne :: "('T, 'c, 's) Collection \<Rightarrow> 'T \<Rightarrow> 's world \<Rightarrow> error option \<times> 's world" where
  "InsertOne c model w = (let (r, w1) = newRecord model w in call (c_InsertOne c r) w1)"

text \<open>The loop of \<^verbatim>\<open>InsertMany\<close> that fills \<^verbatim>\<open>docs\<close>.\<close>

fun newRecords :: "'v list \<Rightarrow> 's world \<Rightarrow> 'v wrapped list \<times> 's world" where
  "newRecords [] w = ([], w)"
| "newRecords (model # models) w =
     (let (r, w1) = newRecord model w;
          (rs, w2) = newRecords models w1
      in (r # rs, w2))"

definition InsertMany :: "('T, 'c, 's) Collection \<Rightarrow> 'T list \<Rightarrow> 's world \<Rightarrow> error option \<times> 's world" where
  "InsertMany c models w = (let (docs, w1) = newRecords models w in call (c_InsertMany c docs) w1)"

text \<open>
  \<^verbatim>\<open>FindOne\<close> returns \<^verbatim>\<open>&model\<close>, never a \<^verbatim>\<open>nil\<close> pointer, next to the error of
  \<^verbatim>\<open>Decode\<close>. The collection without the envelope, the other collection source of
  the repository, has the same \<^verbatim>\<open>FindOne\<close> under other type names.
\<close>

definition FindOne :: "('T, 'c, 's) Collection \<Rightarrow> Option list \<Rightarrow> 's world \<Rightarrow> ('T \<times> error option) \<times> 's world" where
  "FindOne c options w =
     (let opt = bindOptions options;
          (sr, w1) = call (c_FindOne c (Filter opt)) w
      in (Decode sr (zero_T c), w1))"

text \<open>\<open>Inl e\<close> is the result \<^verbatim>\<open>(nil, err)\<close>, \<open>Inr models\<close> the result \<^verbatim>\<open>(models, nil)\<close>.\<close>

definition FindMany :: "('T, 'c, 's) Collection \<Rightarrow> Option list \<Rightarrow> 's world \<Rightarrow> (error + 'T list) \<times> 's world" where
  "FindMany c options w =
     (let opt = bindOptions options;
          (r, w1) = call (c_Find c (Filter opt) (findOptions opt)) w
      in case r of
           Inl err \<Rightarrow> (Inl err, w1)
         | Inr cursor \<Rightarrow> call (c_All c cursor) w1)"

definition UpdateOne :: "('T, 'c, 's) Collection \<Rightarrow> Option list \<Rightarrow> 's world \<Rightarrow> panic + (error option \<times> 's world)" where
  "UpdateOne c options w =
     (case setUpdate (bindOptions options) w of
        Inl p \<Rightarrow> Inl p
      | Inr (opt, w1) \<Rightarrow> Inr (call (c_UpdateOne c (Filter opt) (Update opt)) w1))"

definition UpdateMany :: "('T, 'c, 's) Collection \<Rightarrow> Option list \<Rightarrow> 's world \<Rightarrow> panic + (error option \<times> 's world)" where
  "UpdateMany c options w =
     (case setUpdate (bindOptions options) w of
        Inl p \<Rightarrow> Inl p
      | Inr (opt, w1) \<Rightarrow> Inr (call (c_UpdateMany c (Filter opt) (Update opt)) w1))"

definition DeleteOne :: "('T, 'c, 's) Collection \<Rightarrow> Option list \<Rightarrow> 's world \<Rightarrow> error option \<times> 's world" where
  "DeleteOne c options w = (let opt = bindOptions options in call (c_DeleteOne c (Filter opt)) w)"

definition DeleteMany :: "('T, 'c, 's) Collection \<Rightarrow> Option list \<Rightarrow> 's world \<Rightarrow> error option \<times> 's world" where
  "DeleteMany c options w = (let opt = bindOptions options in call (c_DeleteMany c (Filter opt)) w)"

definition SoftDeleteOne :: "('T, 'c, 's) Collection \<Rightarrow> Option list \<Rightarrow> 's world \<Rightarrow> error option \<times> 's world" where
  "SoftDeleteOne c options w =
     (let (opt, w1) = setSoftDelete (bindOptions options) w
      in call (c_UpdateOne c (Filter opt) (Update opt)) w1)"

definition SoftDeleteMany :: "('T, 'c, 's) Collection \<Rightarrow> Option list \<Rightarrow> 's world \<Rightarrow> error option \<times> 's world" where
  "SoftDeleteMany c options w =
     (let (opt, w1) = setSoftDelete (bindOptions options) w
      in call (c_UpdateMany c (Filter opt) (Update opt)) w1)"

definition Count :: "('T, 'c, 's) Collection \<Rightarrow> Option list \<Rightarrow> 's world \<Rightarrow> (64 word \<times> error option) \<times> 's world" where
  "Count c options w = (let opt = bindOptions options in call (c_CountDocuments c (Filter opt)) w)"

definition Aggregate :: "('T, 'c, 's) Collection \<Rightarrow> Option list \<Rightarrow> 's world \<Rightarrow> (error + 'T list) \<times> 's world" where
  "Aggregate c options w =
     (let opt = bindOptions options;
          (r, w1) = call (c_Aggregate c (Pipeline opt)) w
      in case r of
           Inl err \<Rightarrow> (Inl err, w1)
         | Inr cursor \<Rightarrow> call (c_All c cursor) w1)"

section \<open>Configuration and connection (mgo.go)\<close>

record config =
  Addrs :: string
  Name :: string
  AuthSource :: string
  User :: string
  Password :: string

definition zero_config :: config where
  "zero_config = \<lparr>Addrs = [], Name = [], AuthSource = [], User = [], Password = []\<rparr>"

text \<open>
  \<^verbatim>\<open>envconfig.MustProcess\<close> belongs to the envconfig library. By its documentation it
  describes every field of the struct by its tags: the variable is looked up under the
  prefixed key and, when the field has an \<^verbatim>\<open>envconfig\<close> tag, under the tag alone; a
  missing variable is replaced by the \<^verbatim>\<open>default\<close> tag; a variable that is still missing
  is an error when the field is tagged \<^verbatim>\<open>required:"true"\<close>, and otherwise the field is
  skipped and keeps its zero value. \<^verbatim>\<open>MustProcess\<close> panics with the error.

  \<open>config_vars\<close> is the description of the struct \<^verbatim>\<open>config\<close> under the prefix
  \<^verbatim>\<open>MGO\<close>: each of its five fields carries the tag \<^verbatim>\<open>envconfig\<close> and no other, so
  none is required and none has a default. Each field is a string, which is stored
  as it is found.
\<close>

record varInfo =
  vi_Key :: string
  vi_Alt :: string
  vi_Required :: bool
  vi_Default :: string

definition tagged :: "string \<Rightarrow> string \<Rightarrow> varInfo" where
  "tagged prefix tag = \<lparr>vi_Key = prefix @ ''_'' @ tag, vi_Alt = tag, vi_Required = False, vi_Default = []\<rparr>"

definition config_vars :: "(varInfo \<times> (string \<Rightarrow> config \<Rightarrow> config)) list" where
  "config_vars =
     [(tagged ''MGO'' ''ADDRS'', \<lambda>v cfg. cfg\<lparr>Addrs := v\<rparr>),
      (tagged ''MGO'' ''NAME'', \<lambda>v cfg. cfg\<lparr>Name := v\<rparr>),
      (tagged ''MGO'' ''AUTH_SOURCE'', \<lambda>v cfg. cfg\<lparr>AuthSource := v\<rparr>),
      (tagged ''MGO'' ''USER'', \<lambda>v cfg. cfg\<lparr>User := v\<rparr>),
      (tagged ''MGO'' ''PASSWORD'', \<lambda>v cfg. cfg\<lparr>Password := v\<rparr>)]"

definition lookupVar :: "(string \<Rightarrow> string option) \<Rightarrow> varInfo \<Rightarrow> string option" where
  "lookupVar env info =
     (case env (vi_Key info) of
        Some v \<Rightarrow> Some v
      | None \<Rightarrow> if vi_Alt info \<noteq> [] then env (vi_Alt info) else None)"

text \<open>\<open>Inl\<close> is the error, \<open>Inr None\<close> the skipped field, \<open>Inr (Some v)\<close> the value to store.\<close>

definition processVar :: "(string \<Rightarrow> string option) \<Rightarrow> varInfo \<Rightarrow> string + string option" where
  "processVar env info =
     (case lookupVar env info of
        Some v \<Rightarrow> Inr (Some v)
      | None \<Rightarrow>
          if vi_Default info \<noteq> [] then Inr (Some (vi_Default info))
          else if vi_Required info
            then Inl (''required key '' @ (if vi_Alt info \<noteq> [] then vi_Alt info else vi_Key info) @ '' missing value'')
          else Inr None)"

fun Process :: "(string \<Rightarrow> string option) \<Rightarrow> (varInfo \<times> (string \<Rightarrow> 'c \<Rightarrow> 'c)) list \<Rightarrow> 'c \<Rightarrow> string + 'c" where
  "Process env [] cfg = Inr cfg"
| "Process env ((info, store) # rest) cfg =
     (case processVar env info of
        Inl err \<Rightarrow> Inl err
      | Inr None \<Rightarrow> Process env rest cfg
      | Inr (Some v) \<Rightarrow> Process env rest (store v cfg))"

definition readConfig :: "(string \<Rightarrow> string option) \<Rightarrow> panic + config" where
  "readConfig env =
     (case Process env config_vars zero_config of
        Inl err \<Rightarrow> Inl (ConfigFailure err)
      | Inr cfg \<Rightarrow> Inr cfg)"

text \<open>\<^verbatim>\<open>strings.Split(s, sep)\<close> for a separator of one byte.\<close>

fun Split :: "string \<Rightarrow> char \<Rightarrow> string list" where
  "Split [] sep = [[]]"
| "Split (c # cs) sep =
     (if c = sep then [] # Split cs sep
      else (case Split cs sep of [] \<Rightarrow> [[c]] | x # xs \<Rightarrow> (c # x) # xs))"

record Credential =
  cred_AuthSource :: string
  cred_Username :: string
  cred_Password :: string

record ClientOptions =
  co_Hosts :: "string list"
  co_ConnectTimeout :: nat     \<comment> \<open>seconds\<close>
  co_SocketTimeout :: nat      \<comment> \<open>seconds\<close>
  co_Auth :: Credential

text \<open>
  \<^verbatim>\<open>mongo.Connect\<close> and \<^verbatim>\<open>Ping\<close> are the driver's; they act on the network, whose state
  is \<open>'n\<close>.
\<close>

record ('cl, 'n) mongo =
  mongo_Connect :: "ClientOptions \<Rightarrow> 'n \<Rightarrow> (error + 'cl) \<times> 'n"
  mongo_Ping :: "'cl \<Rightarrow> 'n \<Rightarrow> error option \<times> 'n"

record 'cl client =
  Client :: 'cl
  dbName :: string

definition client_options :: "config \<Rightarrow> ClientOptions" where
  "client_options cfg =
     \<lparr>co_Hosts = Split (Addrs cfg) CHR '','',
      co_ConnectTimeout = 5,
      co_SocketTimeout = 5,
      co_Auth = \<lparr>cred_AuthSource = AuthSource cfg, cred_Username = User cfg,
                 cred_Password = Password cfg\<rparr>\<rparr>"

definition connect :: "('cl, 'n) mongo \<Rightarrow> (string \<Rightarrow> string option) \<Rightarrow> 'n \<Rightarrow> panic + ((error + 'cl client) \<times> 'n)" where
  "connect m env n =
     (case readConfig env of
        Inl p \<Rightarrow> Inl p
      | Inr cfg \<Rightarrow>
          (let (r, n1) = mongo_Connect m (client_options cfg) n in
           case r of
             Inl err \<Rightarrow> Inr (Inl err, n1)
           | Inr c \<Rightarrow>
               (let (e, n2) = mongo_Ping m c n1 in
                case e of
                  Some err \<Rightarrow> Inr (Inl err, n2)
                | None \<Rightarrow> Inr (Inr \<lparr>Client = c, dbName = Name cfg\<rparr>, n2))))"

section \<open>Vocabulary of the properties\<close>

text \<open>
  The seven fields of an option, and the content of one field as a value of one type,
  so that properties can speak about a set of fields.
\<close>

datatype field = F_Filter | F_Update | F_Sort | F_Projection | F_Pipeline | F_Skip | F_Limit

datatype fval = In_M M | In_Pipeline "M list option" | In_Int "64 word option"

fun field_of :: "field \<Rightarrow> option' \<Rightarrow> fval" where
  "field_of F_Filter o' = In_M (Filter o')"
| "field_of F_Update o' = In_M (Update o')"
| "field_of F_Sort o' = In_M (Sort o')"
| "field_of F_Projection o' = In_M (Projection o')"
| "field_of F_Pipeline o' = In_Pipeline (Pipeline o')"
| "field_of F_Skip o' = In_Int (Skip o')"
| "field_of F_Limit o' = In_Int (Limit o')"

text \<open>
  A mutator targets the fields \<open>A\<close> when it leaves every other field as it was and
  what it leaves in the fields of \<open>A\<close> depends on the former content of these fields
  only. It assigns \<open>v\<close> to a field when it leaves \<open>v\<close> there whatever the field held.
\<close>

definition targets :: "field set \<Rightarrow> Option \<Rightarrow> bool" where
  "targets A f \<longleftrightarrow>
     (\<forall>opt x. x \<notin> A \<longrightarrow> field_of x (f opt) = field_of x opt) \<and>
     (\<forall>opt1 opt2. (\<forall>x\<in>A. field_of x opt1 = field_of x opt2) \<longrightarrow>
                   (\<forall>x\<in>A. field_of x (f opt1) = field_of x (f opt2)))"

definition assigns :: "field \<Rightarrow> fval \<Rightarrow> Option \<Rightarrow> bool" where
  "assigns x v f \<longleftrightarrow> (\<forall>opt. field_of x (f opt) = v)"

text \<open>
  The value that configuration loading finds for a key: the variable with the prefix
  \<^verbatim>\<open>MGO_\<close> if it is set, else the variable named by the key alone, else nothing.
\<close>

definition env_value :: "(string \<Rightarrow> string option) \<Rightarrow> string \<Rightarrow> string option" where
  "env_value env key = (case env (''MGO_'' @ key) of Some v \<Rightarrow> Some v | None \<Rightarrow> env key)"

definition or_empty :: "string option \<Rightarrow> string" where
  "or_empty r = (case r of None \<Rightarrow> [] | Some v \<Rightarrow> v)"

section \<open>Concrete instances\<close>

text \<open>
  A driver that records every request it sends to the database, in order, as the
  state of the database, and answers each with the reply of an empty collection.
  Running an operation against it shows what the operation submits. As the driver
  does, it encodes the documents of an insert first: when the codec refuses the
  wrapper it returns the codec's error and sends nothing, and an \<^verbatim>\<open>InsertMany\<close> of no
  document at all is refused before that.
\<close>

datatype 'T request =
    Req_InsertOne "'T wrapped"
  | Req_InsertMany "'T wrapped list"
  | Req_FindOne M
  | Req_Find M FindOptions
  | Req_UpdateOne M M
  | Req_UpdateMany M M
  | Req_DeleteOne M
  | Req_DeleteMany M
  | Req_CountDocuments M
  | Req_Aggregate "M list option"
  | Req_All

definition recorder :: "'T \<Rightarrow> ('T, unit, 'T request list) Collection" where
  "recorder z =
     \<lparr>zero_T = z,
      c_InsertOne = (\<lambda>r s.
        case describeStruct wrapped_fields of
          Inl err \<Rightarrow> (Some err, s)
        | Inr names \<Rightarrow> (None, s @ [Req_InsertOne r])),
      c_InsertMany = (\<lambda>rs s.
        if rs = [] then (Some (ErrOther ''must provide at least one element in input slice''), s)
        else case describeStruct wrapped_fields of
          Inl err \<Rightarrow> (Some err, s)
        | Inr names \<Rightarrow> (None, s @ [Req_InsertMany rs])),
      c_FindOne = (\<lambda>f s. (NoDocument, s @ [Req_FindOne f])),
      c_Find = (\<lambda>f fo s. (Inr (), s @ [Req_Find f fo])),
      c_UpdateOne = (\<lambda>f u s. (None, s @ [Req_UpdateOne f u])),
      c_UpdateMany = (\<lambda>f u s. (None, s @ [Req_UpdateMany f u])),
      c_DeleteOne = (\<lambda>f s. (None, s @ [Req_DeleteOne f])),
      c_DeleteMany = (\<lambda>f s. (None, s @ [Req_DeleteMany f])),
      c_CountDocuments = (\<lambda>f s. ((0, None), s @ [Req_CountDocuments f])),
      c_Aggregate = (\<lambda>p s. (Inr (), s @ [Req_Aggregate p])),
      c_All = (\<lambda>cur s. (Inr [], s @ [Req_All]))\<rparr>"

text \<open>
  A world in which nothing was requested yet, the clock advances by one unit between
  two readings, and the identifiers are 1, 2, 3 and so on. The collection holds strings.
\<close>

definition ticking :: "string request list world" where
  "ticking = \<lparr>clock = (\<lambda>n. 1000 + int n), ticks = 0, oids = (\<lambda>n. of_nat n + 1), minted = 0, db = []\<rparr>"

text \<open>A network that accepts every connection and records the options of each attempt.\<close>

definition open_network :: "(unit, ClientOptions list) mongo" where
  "open_network =
     \<lparr>mongo_Connect = (\<lambda>opts n. (Inr (), n @ [opts])),
      mongo_Ping = (\<lambda>c n. (None, n))\<rparr>"

section \<open>Auxiliary facts\<close>

lemma call_simp: "call f w = (fst (f (db w)), w\<lparr>db := snd (f (db w))\<rparr>)"
  by (simp add: call_def split: prod.splits)

subsection \<open>The loop of bindOptions\<close>

lemma bindLoop_foldl: "bindLoop opt fs = foldl (\<lambda>opt f. f opt) opt fs"
  by (induction fs arbitrary: opt) simp_all

lemma bindLoop_append: "bindLoop opt (fs @ gs) = bindLoop (bindLoop opt fs) gs"
  by (induction fs arbitrary: opt) simp_all

lemma bindLoop_keeps:
  "\<forall>f\<in>set fs. \<forall>opt. P (f opt) = P opt \<Longrightarrow> P (bindLoop opt fs) = P opt"
  by (induction fs arbitrary: opt) simp_all

text \<open>Two options with the same content in each of the seven fields are equal.\<close>

lemma option_eqI:
  fixes a b :: option'
  assumes "\<And>x. field_of x a = field_of x b"
  shows "a = b"
proof (rule option'.equality)
  show "Filter a = Filter b" using assms [of F_Filter] by simp
  show "Update a = Update b" using assms [of F_Update] by simp
  show "Sort a = Sort b" using assms [of F_Sort] by simp
  show "Projection a = Projection b" using assms [of F_Projection] by simp
  show "Pipeline a = Pipeline b" using assms [of F_Pipeline] by simp
  show "Skip a = Skip b" using assms [of F_Skip] by simp
  show "Limit a = Limit b" using assms [of F_Limit] by simp
qed simp

lemma targets_id: "targets A (\<lambda>opt. opt)"
  by (simp add: targets_def)

lemma targets_comp:
  assumes f: "targets A f" and g: "targets A g"
  shows "targets A (\<lambda>opt. g (f opt))"
  unfolding targets_def
proof (intro conjI allI impI)
  fix opt x assume "x \<notin> A"
  with f g show "field_of x (g (f opt)) = field_of x opt"
    by (simp add: targets_def)
next
  fix opt1 opt2 assume "\<forall>x\<in>A. field_of x opt1 = field_of x opt2"
  with f have "\<forall>x\<in>A. field_of x (f opt1) = field_of x (f opt2)"
    unfolding targets_def by blast
  with g show "\<forall>x\<in>A. field_of x (g (f opt1)) = field_of x (g (f opt2))"
    unfolding targets_def by blast
qed

lemma targets_bindLoop:
  "\<forall>f\<in>set fs. targets A f \<Longrightarrow> targets A (\<lambda>opt. bindLoop opt fs)"
proof (induction fs)
  case Nil
  show ?case by (simp add: targets_id)
next
  case (Cons f fs)
  then have "targets A f" and "targets A (\<lambda>opt. bindLoop opt fs)" by simp_all
  from targets_comp [OF this] show ?case by simp
qed

text \<open>Mutators that target disjoint sets of fields can be exchanged.\<close>

lemma targets_commute:
  assumes f: "targets A f" and g: "targets B g" and d: "A \<inter> B = {}"
  shows "f (g opt) = g (f opt)"
proof (rule option_eqI)
  fix x
  consider "x \<in> A" | "x \<in> B" | "x \<notin> A" "x \<notin> B" by blast
  then show "field_of x (f (g opt)) = field_of x (g (f opt))"
  proof cases
    case 1
    with d have nb: "x \<notin> B" by blast
    have "\<forall>y\<in>A. field_of y (g opt) = field_of y opt"
      using g d unfolding targets_def by blast
    with f have "\<forall>y\<in>A. field_of y (f (g opt)) = field_of y (f opt)"
      unfolding targets_def by blast
    with 1 have "field_of x (f (g opt)) = field_of x (f opt)" by blast
    moreover from g nb have "field_of x (g (f opt)) = field_of x (f opt)"
      unfolding targets_def by blast
    ultimately show ?thesis by simp
  next
    case 2
    with d have na: "x \<notin> A" by blast
    have "\<forall>y\<in>B. field_of y (f opt) = field_of y opt"
      using f d unfolding targets_def by blast
    with g have "\<forall>y\<in>B. field_of y (g (f opt)) = field_of y (g opt)"
      unfolding targets_def by blast
    with 2 have "field_of x (g (f opt)) = field_of x (g opt)" by blast
    moreover from f na have "field_of x (f (g opt)) = field_of x (g opt)"
      unfolding targets_def by blast
    ultimately show ?thesis by simp
  next
    case 3
    with f g show ?thesis unfolding targets_def by simp
  qed
qed

lemma bindOptions_swap:
  assumes "\<forall>f\<in>set fs. targets A f" and "\<forall>g\<in>set gs. targets B g" and "A \<inter> B = {}"
  shows "bindOptions (fs @ gs) = bindOptions (gs @ fs)"
proof -
  have F: "targets A (\<lambda>opt. bindLoop opt fs)" using assms(1) by (rule targets_bindLoop)
  have G: "targets B (\<lambda>opt. bindLoop opt gs)" using assms(2) by (rule targets_bindLoop)
  from targets_commute [OF F G assms(3), of zero_option]
  show ?thesis by (simp add: bindOptions_def bindLoop_append)
qed

lemma bindLoop_untouched:
  "\<forall>h\<in>set hs. targets H h \<Longrightarrow> x \<notin> H \<Longrightarrow> field_of x (bindLoop opt hs) = field_of x opt"
  using targets_bindLoop [of hs H] unfolding targets_def by blast

lemma last_writer:
  assumes "assigns x v g" and "\<forall>h\<in>set hs. targets H h" and "x \<notin> H"
  shows "field_of x (bindOptions (fs @ g # hs)) = v"
  using assms by (simp add: bindOptions_def bindLoop_append bindLoop_untouched assigns_def)

lemma targets_Filter_update: "targets {F_Filter} (\<lambda>opt. opt\<lparr>Filter := m\<rparr>)"
  unfolding targets_def
proof (intro conjI allI impI)
  fix opt :: option' and x
  assume "x \<notin> {F_Filter}"
  then show "field_of x (opt\<lparr>Filter := m\<rparr>) = field_of x opt" by (cases x) simp_all
qed simp

lemma targets_Skip_update: "targets {F_Skip} (\<lambda>opt. opt\<lparr>Skip := n\<rparr>)"
  unfolding targets_def
proof (intro conjI allI impI)
  fix opt :: option' and x
  assume "x \<notin> {F_Skip}"
  then show "field_of x (opt\<lparr>Skip := n\<rparr>) = field_of x opt" by (cases x) simp_all
qed simp

subsection \<open>The cases of setUpdate\<close>

lemma setUpdate_nil:
  "Update opt = None \<Longrightarrow>
   setUpdate opt w =
     Inr (opt\<lparr>Update := Some [''$set'' \<mapsto> VM (Some [''updated_at'' \<mapsto> VTime (clock w (ticks w))])]\<rparr>,
          w\<lparr>ticks := Suc (ticks w)\<rparr>)"
  by (simp add: setUpdate_def time_Now_def Let_def)

lemma setUpdate_no_set:
  "Update opt = Some u \<Longrightarrow> u ''$set'' = None \<Longrightarrow>
   setUpdate opt w =
     Inr (opt\<lparr>Update := Some (u(''$set'' \<mapsto> VM (Some [''updated_at'' \<mapsto> VTime (clock w (ticks w))])))\<rparr>,
          w\<lparr>ticks := Suc (ticks w)\<rparr>)"
  by (simp add: setUpdate_def time_Now_def Let_def)

lemma setUpdate_merge:
  "Update opt = Some u \<Longrightarrow> u ''$set'' = Some (VM (Some s)) \<Longrightarrow>
   setUpdate opt w =
     Inr (opt\<lparr>Update := Some (u(''$set'' \<mapsto> VM (Some (s(''updated_at'' \<mapsto> VTime (clock w (ticks w)))))))\<rparr>,
          w\<lparr>ticks := Suc (ticks w)\<rparr>)"
  by (simp add: setUpdate_def time_Now_def Let_def)

lemma setUpdate_nilmap:
  "Update opt = Some u \<Longrightarrow> u ''$set'' = Some (VM None) \<Longrightarrow> setUpdate opt w = Inl NilMapAssignment"
  by (simp add: setUpdate_def time_Now_def Let_def)

lemma setUpdate_not_M:
  "Update opt = Some u \<Longrightarrow> u ''$set'' = Some v \<Longrightarrow> \<forall>s. v \<noteq> VM s \<Longrightarrow>
   setUpdate opt w = Inl InterfaceConversion"
  by (cases v) (simp_all add: setUpdate_def Let_def)

subsection \<open>The records of an insert\<close>

lemma newRecord_eq:
  "newRecord v w =
     (\<lparr>E = \<lparr>ID = oids w (minted w), CreatedAt = clock w (ticks w),
             UpdatedAt = clock w (Suc (ticks w)), DeletedAt = None\<rparr>, V = v\<rparr>,
      w\<lparr>minted := Suc (minted w), ticks := Suc (Suc (ticks w))\<rparr>)"
  by (simp add: newRecord_def NewObjectID_def time_Now_def)

lemma newRecords_Cons:
  "newRecords (v # vs) w =
     (fst (newRecord v w) # fst (newRecords vs (snd (newRecord v w))),
      snd (newRecords vs (snd (newRecord v w))))"
  by (simp split: prod.splits)

lemma newRecords_world:
  "snd (newRecords vs w) = w\<lparr>minted := minted w + length vs, ticks := ticks w + 2 * length vs\<rparr>"
  by (induction vs arbitrary: w) (simp_all add: newRecords_Cons newRecord_eq del: newRecords.simps(2))

subsection \<open>Configuration loading\<close>

lemma processVar_tagged:
  "key \<noteq> [] \<Longrightarrow> processVar env (tagged ''MGO'' key) = Inr (env_value env key)"
  by (simp add: processVar_def lookupVar_def tagged_def env_value_def split: option.splits)

lemma readConfig_total:
  "readConfig env =
     Inr \<lparr>Addrs = or_empty (env_value env ''ADDRS''), Name = or_empty (env_value env ''NAME''),
          AuthSource = or_empty (env_value env ''AUTH_SOURCE''), User = or_empty (env_value env ''USER''),
          Password = or_empty (env_value env ''PASSWORD'')\<rparr>"
  by (simp add: readConfig_def config_vars_def processVar_tagged zero_config_def or_empty_def
      split: option.splits)

section \<open>The update stamp\<close>

text \<open>
  Claim C1, as the code has it. \<^verbatim>\<open>UpdateOne\<close> and \<^verbatim>\<open>UpdateMany\<close> bind the mutators and
  apply \<^verbatim>\<open>setUpdate\<close> to the bound option once. When the bound \<^verbatim>\<open>Update\<close> is \<^verbatim>\<open>nil\<close>, the
  submitted update is a new map whose only key \<^verbatim>\<open>$set\<close> holds \<^verbatim>\<open>{updated_at: now}\<close>. When
  it is a map without the key \<^verbatim>\<open>$set\<close>, that key is added with \<^verbatim>\<open>{updated_at: now}\<close>.
  When the key \<^verbatim>\<open>$set\<close> holds a \<^verbatim>\<open>bson.M\<close> that is not \<^verbatim>\<open>nil\<close>, say \<open>s\<close>, the submitted map
  \<open>s'\<close> under \<^verbatim>\<open>$set\<close> has \<^verbatim>\<open>updated_at = now\<close>, agrees with \<open>s\<close> on every other key, and
  has every key of \<open>s\<close>. In these three cases \<open>now\<close> is the reading
  \<open>clock w (ticks w)\<close>, the filter and the stamped update are submitted in one call of
  the driver, and the world that reaches the driver has exactly one reading more than
  \<open>w\<close>. In the remaining case, when the key \<^verbatim>\<open>$set\<close> holds anything else (a document
  of another type, the \<^verbatim>\<open>nil\<close> map, a value that is no document), both operations
  panic and nothing is submitted.
\<close>

theorem update_stamp:
  "(Update (bindOptions options) = None \<longrightarrow>
      UpdateOne c options w =
        Inr (call (c_UpdateOne c (Filter (bindOptions options))
               (Some [''$set'' \<mapsto> VM (Some [''updated_at'' \<mapsto> VTime (clock w (ticks w))])]))
             (w\<lparr>ticks := Suc (ticks w)\<rparr>)) \<and>
      UpdateMany c options w =
        Inr (call (c_UpdateMany c (Filter (bindOptions options))
               (Some [''$set'' \<mapsto> VM (Some [''updated_at'' \<mapsto> VTime (clock w (ticks w))])]))
             (w\<lparr>ticks := Suc (ticks w)\<rparr>))) \<and>
   (Update (bindOptions options) = Some u \<and> u ''$set'' = None \<longrightarrow>
      UpdateOne c options w =
        Inr (call (c_UpdateOne c (Filter (bindOptions options))
               (Some (u(''$set'' \<mapsto> VM (Some [''updated_at'' \<mapsto> VTime (clock w (ticks w))])))))
             (w\<lparr>ticks := Suc (ticks w)\<rparr>)) \<and>
      UpdateMany c options w =
        Inr (call (c_UpdateMany c (Filter (bindOptions options))
               (Some (u(''$set'' \<mapsto> VM (Some [''updated_at'' \<mapsto> VTime (clock w (ticks w))])))))
             (w\<lparr>ticks := Suc (ticks w)\<rparr>))) \<and>
   (Update (bindOptions options) = Some u \<and> u ''$set'' = Some (VM (Some s)) \<longrightarrow>
      (\<exists>s'. s' ''updated_at'' = Some (VTime (clock w (ticks w))) \<and>
            (\<forall>k. k \<noteq> ''updated_at'' \<longrightarrow> s' k = s k) \<and>
            dom s \<subseteq> dom s' \<and>
            UpdateOne c options w =
              Inr (call (c_UpdateOne c (Filter (bindOptions options)) (Some (u(''$set'' \<mapsto> VM (Some s')))))
                   (w\<lparr>ticks := Suc (ticks w)\<rparr>)) \<and>
            UpdateMany c options w =
              Inr (call (c_UpdateMany c (Filter (bindOptions options)) (Some (u(''$set'' \<mapsto> VM (Some s')))))
                   (w\<lparr>ticks := Suc (ticks w)\<rparr>)))) \<and>
   (Update (bindOptions options) = Some u \<and> u ''$set'' = Some v \<and> (\<forall>m. v \<noteq> VM (Some m)) \<longrightarrow>
      (\<exists>p. UpdateOne c options w = Inl p \<and> UpdateMany c options w = Inl p))"
proof (intro conjI impI)
  assume "Update (bindOptions options) = None"
  then show "UpdateOne c options w =
        Inr (call (c_UpdateOne c (Filter (bindOptions options))
               (Some [''$set'' \<mapsto> VM (Some [''updated_at'' \<mapsto> VTime (clock w (ticks w))])]))
             (w\<lparr>ticks := Suc (ticks w)\<rparr>))"
    by (simp add: UpdateOne_def setUpdate_nil)
next
  assume "Update (bindOptions options) = None"
  then show "UpdateMany c options w =
        Inr (call (c_UpdateMany c (Filter (bindOptions options))
               (Some [''$set'' \<mapsto> VM (Some [''updated_at'' \<mapsto> VTime (clock w (ticks w))])]))
             (w\<lparr>ticks := Suc (ticks w)\<rparr>))"
    by (simp add: UpdateMany_def setUpdate_nil)
next
  assume "Update (bindOptions options) = Some u \<and> u ''$set'' = None"
  then show "UpdateOne c options w =
        Inr (call (c_UpdateOne c (Filter (bindOptions options))
               (Some (u(''$set'' \<mapsto> VM (Some [''updated_at'' \<mapsto> VTime (clock w (ticks w))])))))
             (w\<lparr>ticks := Suc (ticks w)\<rparr>))"
    by (simp add: UpdateOne_def setUpdate_no_set)
next
  assume "Update (bindOptions options) = Some u \<and> u ''$set'' = None"
  then show "UpdateMany c options w =
        Inr (call (c_UpdateMany c (Filter (bindOptions options))
               (Some (u(''$set'' \<mapsto> VM (Some [''updated_at'' \<mapsto> VTime (clock w (ticks w))])))))
             (w\<lparr>ticks := Suc (ticks w)\<rparr>))"
    by (simp add: UpdateMany_def setUpdate_no_set)
next
  let ?s' = "s(''updated_at'' \<mapsto> VTime (clock w (ticks w)))"
  assume a: "Update (bindOptions options) = Some u \<and> u ''$set'' = Some (VM (Some s))"
  have 1: "?s' ''updated_at'' = Some (VTime (clock w (ticks w)))" by simp
  have 2: "\<forall>k. k \<noteq> ''updated_at'' \<longrightarrow> ?s' k = s k" by simp
  have 3: "dom s \<subseteq> dom ?s'" by auto
  from a have 4: "UpdateOne c options w =
              Inr (call (c_UpdateOne c (Filter (bindOptions options)) (Some (u(''$set'' \<mapsto> VM (Some ?s')))))
                   (w\<lparr>ticks := Suc (ticks w)\<rparr>))"
    by (simp add: UpdateOne_def setUpdate_merge)
  from a have 5: "UpdateMany c options w =
              Inr (call (c_UpdateMany c (Filter (bindOptions options)) (Some (u(''$set'' \<mapsto> VM (Some ?s')))))
                   (w\<lparr>ticks := Suc (ticks w)\<rparr>))"
    by (simp add: UpdateMany_def setUpdate_merge)
  from 1 2 3 4 5 show "\<exists>s'. s' ''updated_at'' = Some (VTime (clock w (ticks w))) \<and>
            (\<forall>k. k \<noteq> ''updated_at'' \<longrightarrow> s' k = s k) \<and>
            dom s \<subseteq> dom s' \<and>
            UpdateOne c options w =
              Inr (call (c_UpdateOne c (Filter (bindOptions options)) (Some (u(''$set'' \<mapsto> VM (Some s')))))
                   (w\<lparr>ticks := Suc (ticks w)\<rparr>)) \<and>
            UpdateMany c options w =
              Inr (call (c_UpdateMany c (Filter (bindOptions options)) (Some (u(''$set'' \<mapsto> VM (Some s')))))
                   (w\<lparr>ticks := Suc (ticks w)\<rparr>))"
    by blast
next
  assume a: "Update (bindOptions options) = Some u \<and> u ''$set'' = Some v \<and> (\<forall>m. v \<noteq> VM (Some m))"
  have "\<exists>p. setUpdate (bindOptions options) w = Inl p"
  proof (cases "v = VM None")
    case True
    with a have "setUpdate (bindOptions options) w = Inl NilMapAssignment"
      by (simp add: setUpdate_nilmap)
    then show ?thesis ..
  next
    case False
    with a have "\<forall>t. v \<noteq> VM t"
      by (metis option.exhaust)
    with a have "setUpdate (bindOptions options) w = Inl InterfaceConversion"
      by (simp add: setUpdate_not_M)
    then show ?thesis ..
  qed
  then obtain p where "setUpdate (bindOptions options) w = Inl p" ..
  then have "UpdateOne c options w = Inl p \<and> UpdateMany c options w = Inl p"
    by (simp add: UpdateOne_def UpdateMany_def)
  then show "\<exists>p. UpdateOne c options w = Inl p \<and> UpdateMany c options w = Inl p" ..
qed

text \<open>
  The four cases on the recording driver, at clock reading 1000: no mutator at all; a
  mutator that supplies an update with \<^verbatim>\<open>$inc\<close> only; a mutator that supplies
  \<^verbatim>\<open>$set: bson.M{"name": "b"}\<close>, which is still there beside the stamp; a mutator that
  supplies a string under \<^verbatim>\<open>$set\<close>.
\<close>

theorem update_stamp_witness:
  "Update (bindOptions []) = None \<and>
   UpdateOne (recorder '''') [] ticking =
     Inr (None, ticking\<lparr>ticks := 1,
            db := [Req_UpdateOne None (Some [''$set'' \<mapsto> VM (Some [''updated_at'' \<mapsto> VTime 1000])])]\<rparr>) \<and>
   Update (bindOptions [\<lambda>opt. opt\<lparr>Update := Some [''$inc'' \<mapsto> VM (Some [''n'' \<mapsto> VInt64 1])]\<rparr>])
     = Some [''$inc'' \<mapsto> VM (Some [''n'' \<mapsto> VInt64 1])] \<and>
   [''$inc'' \<mapsto> VM (Some [''n'' \<mapsto> VInt64 1])] ''$set'' = None \<and>
   UpdateMany (recorder '''') [\<lambda>opt. opt\<lparr>Update := Some [''$inc'' \<mapsto> VM (Some [''n'' \<mapsto> VInt64 1])]\<rparr>] ticking =
     Inr (None, ticking\<lparr>ticks := 1,
            db := [Req_UpdateMany None
                     (Some [''$inc'' \<mapsto> VM (Some [''n'' \<mapsto> VInt64 1]),
                            ''$set'' \<mapsto> VM (Some [''updated_at'' \<mapsto> VTime 1000])])]\<rparr>) \<and>
   Update (bindOptions [\<lambda>opt. opt\<lparr>Update := Some [''$set'' \<mapsto> VM (Some [''name'' \<mapsto> VString ''b''])]\<rparr>])
     = Some [''$set'' \<mapsto> VM (Some [''name'' \<mapsto> VString ''b''])] \<and>
   [''$set'' \<mapsto> VM (Some [''name'' \<mapsto> VString ''b''])] ''$set'' = Some (VM (Some [''name'' \<mapsto> VString ''b''])) \<and>
   (\<exists>s'. s' ''updated_at'' = Some (VTime 1000) \<and> s' ''name'' = Some (VString ''b'') \<and>
      UpdateOne (recorder '''') [\<lambda>opt. opt\<lparr>Update := Some [''$set'' \<mapsto> VM (Some [''name'' \<mapsto> VString ''b''])]\<rparr>] ticking =
        Inr (None, ticking\<lparr>ticks := 1,
               db := [Req_UpdateOne None (Some [''$set'' \<mapsto> VM (Some s')])]\<rparr>)) \<and>
   Update (bindOptions [\<lambda>opt. opt\<lparr>Update := Some [''$set'' \<mapsto> VString ''b'']\<rparr>])
     = Some [''$set'' \<mapsto> VString ''b''] \<and>
   [''$set'' \<mapsto> VString ''b''] ''$set'' = Some (VString ''b'') \<and>
   (\<forall>m. VString ''b'' \<noteq> VM (Some m)) \<and>
   (\<exists>p. UpdateOne (recorder '''') [\<lambda>opt. opt\<lparr>Update := Some [''$set'' \<mapsto> VString ''b'']\<rparr>] ticking = Inl p \<and>
        UpdateMany (recorder '''') [\<lambda>opt. opt\<lparr>Update := Some [''$set'' \<mapsto> VString ''b'']\<rparr>] ticking = Inl p)"
proof -
  let ?inc = "[''$inc'' \<mapsto> VM (Some [''n'' \<mapsto> VInt64 1])]"
  let ?set = "[''name'' \<mapsto> VString ''b'']"
  let ?str = "[\<lambda>opt::option'. opt\<lparr>Update := Some [''$set'' \<mapsto> VString ''b'']\<rparr>]"
  have a: "Update (bindOptions []) = None"
    by (simp add: bindOptions_def zero_option_def)
  have b: "Update (bindOptions [\<lambda>opt. opt\<lparr>Update := Some ?inc\<rparr>]) = Some ?inc \<and> ?inc ''$set'' = None"
    by (simp add: bindOptions_def zero_option_def)
  have c: "Update (bindOptions [\<lambda>opt. opt\<lparr>Update := Some [''$set'' \<mapsto> VM (Some ?set)]\<rparr>])
             = Some [''$set'' \<mapsto> VM (Some ?set)]
           \<and> [''$set'' \<mapsto> VM (Some ?set)] ''$set'' = Some (VM (Some ?set))"
    by (simp add: bindOptions_def zero_option_def)
  have d: "Update (bindOptions ?str) = Some [''$set'' \<mapsto> VString ''b''] \<and>
           [''$set'' \<mapsto> VString ''b''] ''$set'' = Some (VString ''b'') \<and>
           (\<forall>m. VString ''b'' \<noteq> VM (Some m))"
    by (simp add: bindOptions_def zero_option_def)
  note t = update_stamp [where c = "recorder ''''" and w = ticking]
  from a t [of "[]"]
  have 1: "UpdateOne (recorder '''') [] ticking =
     Inr (None, ticking\<lparr>ticks := 1,
            db := [Req_UpdateOne None (Some [''$set'' \<mapsto> VM (Some [''updated_at'' \<mapsto> VTime 1000])])]\<rparr>)"
    by (simp add: call_simp recorder_def ticking_def bindOptions_def zero_option_def)
  from b t [of "[\<lambda>opt. opt\<lparr>Update := Some ?inc\<rparr>]" ?inc]
  have 2: "UpdateMany (recorder '''') [\<lambda>opt. opt\<lparr>Update := Some ?inc\<rparr>] ticking =
     Inr (None, ticking\<lparr>ticks := 1,
            db := [Req_UpdateMany None
                     (Some (?inc(''$set'' \<mapsto> VM (Some [''updated_at'' \<mapsto> VTime 1000]))))]\<rparr>)"
    by (simp add: call_simp recorder_def ticking_def bindOptions_def zero_option_def)
  from c t [of "[\<lambda>opt. opt\<lparr>Update := Some [''$set'' \<mapsto> VM (Some ?set)]\<rparr>]" "[''$set'' \<mapsto> VM (Some ?set)]" ?set]
  obtain s' where s': "s' ''updated_at'' = Some (VTime 1000)" "\<forall>k. k \<noteq> ''updated_at'' \<longrightarrow> s' k = ?set k"
    "UpdateOne (recorder '''') [\<lambda>opt. opt\<lparr>Update := Some [''$set'' \<mapsto> VM (Some ?set)]\<rparr>] ticking =
        Inr (None, ticking\<lparr>ticks := 1, db := [Req_UpdateOne None (Some [''$set'' \<mapsto> VM (Some s')])]\<rparr>)"
    by (auto simp add: call_simp recorder_def ticking_def bindOptions_def zero_option_def)
  from s'(2) have "s' ''name'' = Some (VString ''b'')" by simp
  with s' have 3: "\<exists>s'. s' ''updated_at'' = Some (VTime 1000) \<and> s' ''name'' = Some (VString ''b'') \<and>
      UpdateOne (recorder '''') [\<lambda>opt. opt\<lparr>Update := Some [''$set'' \<mapsto> VM (Some ?set)]\<rparr>] ticking =
        Inr (None, ticking\<lparr>ticks := 1,
               db := [Req_UpdateOne None (Some [''$set'' \<mapsto> VM (Some s')])]\<rparr>)"
    by blast
  from d t [of ?str "[''$set'' \<mapsto> VString ''b'']" _ "VString ''b''"]
  have 4: "\<exists>p. UpdateOne (recorder '''') ?str ticking = Inl p \<and> UpdateMany (recorder '''') ?str ticking = Inl p"
    by blast
  from a b c d 1 2 3 4 show ?thesis by (intro conjI) simp_all
qed

text \<open>
  The claim as the specification states it promises the merge for every call in which
  a \<^verbatim>\<open>$set\<close> document exists. A mutator that supplies it as the ordered document
  \<^verbatim>\<open>bson.D{{"name", "b"}}\<close> makes both operations panic on the type assertion, and one
  that supplies a \<^verbatim>\<open>bson.M\<close> that is \<^verbatim>\<open>nil\<close> makes them panic on the write.
\<close>

theorem update_stamp_counterexample:
  "Update (bindOptions [\<lambda>opt. opt\<lparr>Update := Some [''$set'' \<mapsto> VD [(''name'', VString ''b'')]]\<rparr>]) =
     Some [''$set'' \<mapsto> VD [(''name'', VString ''b'')]] \<and>
   UpdateOne (recorder '''') [\<lambda>opt. opt\<lparr>Update := Some [''$set'' \<mapsto> VD [(''name'', VString ''b'')]]\<rparr>] ticking =
     Inl InterfaceConversion \<and>
   UpdateMany (recorder '''') [\<lambda>opt. opt\<lparr>Update := Some [''$set'' \<mapsto> VD [(''name'', VString ''b'')]]\<rparr>] ticking =
     Inl InterfaceConversion \<and>
   Update (bindOptions [\<lambda>opt. opt\<lparr>Update := Some [''$set'' \<mapsto> VM None]\<rparr>]) = Some [''$set'' \<mapsto> VM None] \<and>
   UpdateOne (recorder '''') [\<lambda>opt. opt\<lparr>Update := Some [''$set'' \<mapsto> VM None]\<rparr>] ticking =
     Inl NilMapAssignment \<and>
   UpdateMany (recorder '''') [\<lambda>opt. opt\<lparr>Update := Some [''$set'' \<mapsto> VM None]\<rparr>] ticking =
     Inl NilMapAssignment"
  by (simp add: UpdateOne_def UpdateMany_def setUpdate_def time_Now_def Let_def
      bindOptions_def zero_option_def)

text \<open>
  Claim C9. When the bound \<^verbatim>\<open>Update\<close> holds under \<^verbatim>\<open>$set\<close> a value whose dynamic type is
  not \<^verbatim>\<open>bson.M\<close>, the type assertion of \<^verbatim>\<open>setUpdate\<close> panics, and \<^verbatim>\<open>UpdateOne\<close> and
  \<^verbatim>\<open>UpdateMany\<close> panic with it: no error value is returned and nothing is submitted.
  Conversely, whenever one of them returns, a value found under \<^verbatim>\<open>$set\<close> of the bound
  \<^verbatim>\<open>Update\<close> is a \<^verbatim>\<open>bson.M\<close> (and not the \<^verbatim>\<open>nil\<close> map).
\<close>

theorem update_stamp_panics:
  "(Update (bindOptions options) = Some u \<and> u ''$set'' = Some v \<and> (\<forall>s. v \<noteq> VM s) \<longrightarrow>
      UpdateOne c options w = Inl InterfaceConversion \<and>
      UpdateMany c options w = Inl InterfaceConversion) \<and>
   (UpdateOne c options w = Inr r \<or> UpdateMany c options w = Inr r \<longrightarrow>
      (\<forall>u' v'. Update (bindOptions options) = Some u' \<and> u' ''$set'' = Some v' \<longrightarrow> (\<exists>s. v' = VM (Some s))))"
proof (intro conjI impI allI)
  assume "Update (bindOptions options) = Some u \<and> u ''$set'' = Some v \<and> (\<forall>s. v \<noteq> VM s)"
  then have "setUpdate (bindOptions options) w = Inl InterfaceConversion"
    by (simp add: setUpdate_not_M)
  then show "UpdateOne c options w = Inl InterfaceConversion"
    and "UpdateMany c options w = Inl InterfaceConversion"
    by (simp_all add: UpdateOne_def UpdateMany_def)
next
  fix u' v'
  assume r: "UpdateOne c options w = Inr r \<or> UpdateMany c options w = Inr r"
    and u: "Update (bindOptions options) = Some u' \<and> u' ''$set'' = Some v'"
  from r have ok: "\<exists>x. setUpdate (bindOptions options) w = Inr x"
    by (auto simp: UpdateOne_def UpdateMany_def split: sum.splits)
  show "\<exists>s. v' = VM (Some s)"
  proof (cases "\<exists>s. v' = VM s")
    case False
    with u have "setUpdate (bindOptions options) w = Inl InterfaceConversion"
      by (simp add: setUpdate_not_M)
    with ok show ?thesis by simp
  next
    case True
    then obtain s where s: "v' = VM s" ..
    show ?thesis
    proof (cases s)
      case None
      with u s have "setUpdate (bindOptions options) w = Inl NilMapAssignment"
        by (simp add: setUpdate_nilmap)
      with ok show ?thesis by simp
    next
      case (Some m)
      with s show ?thesis by simp
    qed
  qed
qed

text \<open>
  A mutator that supplies \<^verbatim>\<open>$set\<close> as the ordered document \<^verbatim>\<open>bson.D{{"name", "b"}}\<close> makes
  both operations panic; one that supplies the map \<^verbatim>\<open>bson.M{"name": "b"}\<close> lets
  \<^verbatim>\<open>UpdateOne\<close> return.
\<close>

theorem update_stamp_panics_witness:
  "Update (bindOptions [\<lambda>opt. opt\<lparr>Update := Some [''$set'' \<mapsto> VD [(''name'', VString ''b'')]]\<rparr>])
     = Some [''$set'' \<mapsto> VD [(''name'', VString ''b'')]] \<and>
   [''$set'' \<mapsto> VD [(''name'', VString ''b'')]] ''$set'' = Some (VD [(''name'', VString ''b'')]) \<and>
   (\<forall>s. VD [(''name'', VString ''b'')] \<noteq> VM s) \<and>
   UpdateOne (recorder '''') [\<lambda>opt. opt\<lparr>Update := Some [''$set'' \<mapsto> VD [(''name'', VString ''b'')]]\<rparr>] ticking
     = Inl InterfaceConversion \<and>
   UpdateMany (recorder '''') [\<lambda>opt. opt\<lparr>Update := Some [''$set'' \<mapsto> VD [(''name'', VString ''b'')]]\<rparr>] ticking
     = Inl InterfaceConversion \<and>
   UpdateOne (recorder '''') [\<lambda>opt. opt\<lparr>Update := Some [''$set'' \<mapsto> VM (Some [''name'' \<mapsto> VString ''b''])]\<rparr>] ticking =
     Inr (None, ticking\<lparr>ticks := 1,
            db := [Req_UpdateOne None
                     (Some [''$set'' \<mapsto> VM (Some [''name'' \<mapsto> VString ''b'',
                                                      ''updated_at'' \<mapsto> VTime 1000])])]\<rparr>) \<and>
   Update (bindOptions [\<lambda>opt. opt\<lparr>Update := Some [''$set'' \<mapsto> VM (Some [''name'' \<mapsto> VString ''b''])]\<rparr>])
     = Some [''$set'' \<mapsto> VM (Some [''name'' \<mapsto> VString ''b''])] \<and>
   (\<exists>s. VM (Some [''name'' \<mapsto> VString ''b'']) = VM (Some s))"
proof -
  let ?d = "VD [(''name'', VString ''b'')]"
  let ?o = "[\<lambda>opt::option'. opt\<lparr>Update := Some [''$set'' \<mapsto> ?d]\<rparr>]"
  let ?m = "VM (Some [''name'' \<mapsto> VString ''b''])"
  let ?p = "[\<lambda>opt::option'. opt\<lparr>Update := Some [''$set'' \<mapsto> ?m]\<rparr>]"
  let ?r = "(None, ticking\<lparr>ticks := 1,
            db := [Req_UpdateOne None
                     (Some [''$set'' \<mapsto> VM (Some [''name'' \<mapsto> VString ''b'',
                                                      ''updated_at'' \<mapsto> VTime 1000])])]\<rparr>)"
  have h: "Update (bindOptions ?o) = Some [''$set'' \<mapsto> ?d] \<and> [''$set'' \<mapsto> ?d] ''$set'' = Some ?d \<and> (\<forall>s. ?d \<noteq> VM s)"
    by (simp add: bindOptions_def zero_option_def)
  have k: "UpdateOne (recorder '''') ?p ticking = Inr ?r"
    by (simp add: UpdateOne_def setUpdate_def time_Now_def Let_def call_simp recorder_def ticking_def
        bindOptions_def zero_option_def)
  have j: "Update (bindOptions ?p) = Some [''$set'' \<mapsto> ?m] \<and> [''$set'' \<mapsto> ?m] ''$set'' = Some ?m"
    by (simp add: bindOptions_def zero_option_def)
  from h update_stamp_panics [of ?o "[''$set'' \<mapsto> ?d]" ?d "recorder ''''" ticking]
  have 1: "UpdateOne (recorder '''') ?o ticking = Inl InterfaceConversion \<and>
           UpdateMany (recorder '''') ?o ticking = Inl InterfaceConversion"
    by blast
  from k j update_stamp_panics [of ?p _ _ "recorder ''''" ticking ?r]
  have 2: "\<exists>s. ?m = VM (Some s)"
    by blast
  from h k j 1 2 show ?thesis by (intro conjI) simp_all
qed

section \<open>The soft-delete stamp\<close>

text \<open>
  Claim C2. \<^verbatim>\<open>SoftDeleteOne\<close> and \<^verbatim>\<open>SoftDeleteMany\<close> bind the mutators, read the clock
  once and submit, with the bound filter, the bound \<^verbatim>\<open>Update\<close> (the empty map when it
  is \<^verbatim>\<open>nil\<close>) in which the key \<^verbatim>\<open>$set\<close> is bound to the map \<^verbatim>\<open>{deleted_at: now}\<close> and
  nothing else, whatever the mutators had put under \<^verbatim>\<open>$set\<close>. No case panics.
\<close>

theorem soft_delete_stamp:
  "SoftDeleteOne c options w =
     call (c_UpdateOne c (Filter (bindOptions options))
            (Some ((case Update (bindOptions options) of None \<Rightarrow> Map.empty | Some u \<Rightarrow> u)
                   (''$set'' \<mapsto> VM (Some [''deleted_at'' \<mapsto> VTime (clock w (ticks w))])))))
          (w\<lparr>ticks := Suc (ticks w)\<rparr>) \<and>
   SoftDeleteMany c options w =
     call (c_UpdateMany c (Filter (bindOptions options))
            (Some ((case Update (bindOptions options) of None \<Rightarrow> Map.empty | Some u \<Rightarrow> u)
                   (''$set'' \<mapsto> VM (Some [''deleted_at'' \<mapsto> VTime (clock w (ticks w))])))))
          (w\<lparr>ticks := Suc (ticks w)\<rparr>)"
  by (simp add: SoftDeleteOne_def SoftDeleteMany_def setSoftDelete_def time_Now_def Let_def)

text \<open>
  The mutators supply a filter and \<^verbatim>\<open>$set: {name: "b"}\<close>; the recording driver receives
  \<^verbatim>\<open>$set: {deleted_at: 1000}\<close>, without \<^verbatim>\<open>name\<close>.
\<close>

theorem soft_delete_stamp_witness:
  "SoftDeleteOne (recorder '''')
     [\<lambda>opt. opt\<lparr>Filter := Some [''name'' \<mapsto> VString ''a'']\<rparr>,
      \<lambda>opt. opt\<lparr>Update := Some [''$set'' \<mapsto> VM (Some [''name'' \<mapsto> VString ''b''])]\<rparr>] ticking =
     (None, ticking\<lparr>ticks := 1,
        db := [Req_UpdateOne (Some [''name'' \<mapsto> VString ''a''])
                 (Some [''$set'' \<mapsto> VM (Some [''deleted_at'' \<mapsto> VTime 1000])])]\<rparr>)"
  using soft_delete_stamp [of "recorder ''''"
     "[\<lambda>opt. opt\<lparr>Filter := Some [''name'' \<mapsto> VString ''a'']\<rparr>,
       \<lambda>opt. opt\<lparr>Update := Some [''$set'' \<mapsto> VM (Some [''name'' \<mapsto> VString ''b''])]\<rparr>]" ticking]
  by (simp add: call_simp recorder_def ticking_def bindOptions_def zero_option_def)

section \<open>The envelope of an insert\<close>

text \<open>
  Claim C3. \<^verbatim>\<open>InsertOne\<close> passes to the driver the record of \<^verbatim>\<open>newRecord\<close>: the identifier of
  a new call of the generator, as created-at the next clock reading, as updated-at
  the reading after that one, no deleted-at, and the caller's value; \<^verbatim>\<open>InsertMany\<close>
  passes one such record for each element, in order. With a clock that advances
  between two readings the record is created at 1000 and updated at 1001, not at
  equal times. And the codec refuses the wrapper, whose field \<^verbatim>\<open>V\<close> is inlined with
  the static type \<^verbatim>\<open>any\<close>: the driver returns the codec's error and no record reaches
  the store, for one value and for several.
\<close>

theorem insert_envelope:
  "fst (newRecord v w) =
     \<lparr>E = \<lparr>ID = oids w (minted w), CreatedAt = clock w (ticks w),
            UpdatedAt = clock w (Suc (ticks w)), DeletedAt = None\<rparr>, V = v\<rparr> \<and>
   InsertOne c v w =
     call (c_InsertOne c (fst (newRecord v w)))
          (w\<lparr>minted := Suc (minted w), ticks := Suc (Suc (ticks w))\<rparr>) \<and>
   InsertMany c vs w =
     call (c_InsertMany c (fst (newRecords vs w)))
          (w\<lparr>minted := minted w + length vs, ticks := ticks w + 2 * length vs\<rparr>) \<and>
   fst (newRecord ''v'' ticking) =
     \<lparr>E = \<lparr>ID = 1, CreatedAt = 1000, UpdatedAt = 1001, DeletedAt = None\<rparr>, V = ''v''\<rparr> \<and>
   CreatedAt (E (fst (newRecord ''v'' ticking))) \<noteq> UpdatedAt (E (fst (newRecord ''v'' ticking))) \<and>
   fst (newRecords [''a'', ''b''] ticking) =
     [\<lparr>E = \<lparr>ID = 1, CreatedAt = 1000, UpdatedAt = 1001, DeletedAt = None\<rparr>, V = ''a''\<rparr>,
      \<lparr>E = \<lparr>ID = 2, CreatedAt = 1002, UpdatedAt = 1003, DeletedAt = None\<rparr>, V = ''b''\<rparr>] \<and>
   describeStruct wrapped_fields = Inl inline_refused \<and>
   InsertOne (recorder '''') ''v'' ticking = (Some inline_refused, ticking\<lparr>minted := 1, ticks := 2\<rparr>) \<and>
   InsertMany (recorder '''') [''a'', ''b''] ticking = (Some inline_refused, ticking\<lparr>minted := 2, ticks := 4\<rparr>)"
proof (intro conjI)
  show "InsertMany c vs w =
     call (c_InsertMany c (fst (newRecords vs w)))
          (w\<lparr>minted := minted w + length vs, ticks := ticks w + 2 * length vs\<rparr>)"
    by (simp add: InsertMany_def newRecords_world [symmetric] split: prod.splits)
next
  show "fst (newRecords [''a'', ''b''] ticking) =
     [\<lparr>E = \<lparr>ID = 1, CreatedAt = 1000, UpdatedAt = 1001, DeletedAt = None\<rparr>, V = ''a''\<rparr>,
      \<lparr>E = \<lparr>ID = 2, CreatedAt = 1002, UpdatedAt = 1003, DeletedAt = None\<rparr>, V = ''b''\<rparr>]"
    by (simp add: newRecords_Cons newRecord_eq ticking_def del: newRecords.simps(2))
next
  show "describeStruct wrapped_fields = Inl inline_refused"
    by (simp add: wrapped_fields_def Entity_fields_def)
next
  show "InsertOne (recorder '''') ''v'' ticking = (Some inline_refused, ticking\<lparr>minted := 1, ticks := 2\<rparr>)"
    by (simp add: InsertOne_def newRecord_eq call_simp recorder_def ticking_def
        wrapped_fields_def Entity_fields_def)
next
  show "InsertMany (recorder '''') [''a'', ''b''] ticking =
          (Some inline_refused, ticking\<lparr>minted := 2, ticks := 4\<rparr>)"
    by (simp add: InsertMany_def newRecords_Cons newRecord_eq call_simp recorder_def ticking_def
        wrapped_fields_def Entity_fields_def del: newRecords.simps(2))
qed (simp_all add: InsertOne_def newRecord_eq ticking_def)

text \<open>
  Claim C7. The tags of \<^verbatim>\<open>Entity\<close> name its four elements \<^verbatim>\<open>_id\<close>, \<^verbatim>\<open>created_at\<close>,
  \<^verbatim>\<open>update_at\<close> and \<^verbatim>\<open>deleted_at\<close>, and a wrapper whose second inlined field has a struct
  type gets these four names followed by the names of that struct. The wrapper of
  \<^verbatim>\<open>newRecord\<close> declares the field as \<^verbatim>\<open>any\<close>: the codec refuses it, so the insert returns
  the codec's error and no document with these names is persisted.
\<close>

theorem envelope_field_names:
  "describeStruct Entity_fields = Inr [''_id'', ''created_at'', ''update_at'', ''deleted_at''] \<and>
   describeStruct [SField ''e'' True (TStruct Entity_fields),
                   SField ''v'' True (TStruct [SField ''name'' False TOther])] =
     Inr [''_id'', ''created_at'', ''update_at'', ''deleted_at'', ''name''] \<and>
   describeStruct wrapped_fields = Inl inline_refused \<and>
   fst (InsertOne (recorder '''') ''a'' ticking) = Some inline_refused \<and>
   db (snd (InsertOne (recorder '''') ''a'' ticking)) = []"
  by (simp add: wrapped_fields_def Entity_fields_def InsertOne_def newRecord_eq call_simp
      recorder_def ticking_def)

section \<open>Binding the mutators\<close>

text \<open>
  Claim C4. \<^verbatim>\<open>bindOptions\<close> applies the mutators from left to right, starting from the
  option whose seven fields are all \<^verbatim>\<open>nil\<close>. Therefore a sequence of mutators that
  target the fields \<open>A\<close> and a sequence of mutators that target the fields \<open>B\<close>, with
  \<open>A\<close> and \<open>B\<close> disjoint, give the same option in either order; and when a mutator
  assigns \<open>v\<close> to a field and no later mutator targets that field, the bound option
  holds \<open>v\<close> there, whatever the earlier mutators had written: the last writer's value,
  not a merge.
\<close>

theorem bindOptions_order:
  "bindOptions options = foldl (\<lambda>opt f. f opt) zero_option options \<and>
   Filter zero_option = None \<and> Update zero_option = None \<and> Sort zero_option = None \<and>
   Projection zero_option = None \<and> Pipeline zero_option = None \<and> Skip zero_option = None \<and>
   Limit zero_option = None \<and>
   ((\<forall>f\<in>set fs. targets A f) \<and> (\<forall>g\<in>set gs. targets B g) \<and> A \<inter> B = {} \<longrightarrow>
      bindOptions (fs @ gs) = bindOptions (gs @ fs)) \<and>
   (assigns x v g \<and> (\<forall>h\<in>set hs. targets H h) \<and> x \<notin> H \<longrightarrow>
      field_of x (bindOptions (ps @ g # hs)) = v)"
proof (intro conjI impI)
  show "bindOptions options = foldl (\<lambda>opt f. f opt) zero_option options"
    by (simp add: bindOptions_def bindLoop_foldl)
next
  assume "(\<forall>f\<in>set fs. targets A f) \<and> (\<forall>g\<in>set gs. targets B g) \<and> A \<inter> B = {}"
  then show "bindOptions (fs @ gs) = bindOptions (gs @ fs)"
    by (blast intro: bindOptions_swap)
next
  assume "assigns x v g \<and> (\<forall>h\<in>set hs. targets H h) \<and> x \<notin> H"
  then show "field_of x (bindOptions (ps @ g # hs)) = v"
    by (blast intro: last_writer)
qed (simp_all add: zero_option_def)

text \<open>
  A mutator that sets the filter and one that sets the offset commute; of two mutators
  that set the filter, the second one decides, also when the offset is set after it.
\<close>

theorem bindOptions_order_witness:
  "targets {F_Filter} (\<lambda>opt. opt\<lparr>Filter := Some [''name'' \<mapsto> VString ''a'']\<rparr>) \<and>
   targets {F_Skip} (\<lambda>opt. opt\<lparr>Skip := Some 3\<rparr>) \<and>
   {F_Filter} \<inter> {F_Skip} = {} \<and>
   bindOptions ([\<lambda>opt. opt\<lparr>Filter := Some [''name'' \<mapsto> VString ''a'']\<rparr>] @ [\<lambda>opt. opt\<lparr>Skip := Some 3\<rparr>]) =
   bindOptions ([\<lambda>opt. opt\<lparr>Skip := Some 3\<rparr>] @ [\<lambda>opt. opt\<lparr>Filter := Some [''name'' \<mapsto> VString ''a'']\<rparr>]) \<and>
   assigns F_Filter (In_M (Some [''name'' \<mapsto> VString ''a'']))
     (\<lambda>opt. opt\<lparr>Filter := Some [''name'' \<mapsto> VString ''a'']\<rparr>) \<and>
   F_Filter \<notin> {F_Skip} \<and>
   field_of F_Filter
     (bindOptions ([\<lambda>opt. opt\<lparr>Filter := Some [''name'' \<mapsto> VString ''z'']\<rparr>]
                   @ (\<lambda>opt. opt\<lparr>Filter := Some [''name'' \<mapsto> VString ''a'']\<rparr>) # [\<lambda>opt. opt\<lparr>Skip := Some 3\<rparr>]))
     = In_M (Some [''name'' \<mapsto> VString ''a''])"
proof -
  let ?f = "\<lambda>opt::option'. opt\<lparr>Filter := Some [''name'' \<mapsto> VString ''a'']\<rparr>"
  let ?g = "\<lambda>opt::option'. opt\<lparr>Skip := Some 3\<rparr>"
  have f: "targets {F_Filter} ?f" by (rule targets_Filter_update)
  have g: "targets {F_Skip} ?g" by (rule targets_Skip_update)
  have 1: "\<forall>f\<in>set [?f]. targets {F_Filter} f" using f by simp
  have 2: "\<forall>g\<in>set [?g]. targets {F_Skip} g" using g by simp
  have 3: "{F_Filter} \<inter> {F_Skip} = {}" "F_Filter \<notin> {F_Skip}" by simp_all
  have 4: "assigns F_Filter (In_M (Some [''name'' \<mapsto> VString ''a''])) ?f"
    by (simp add: assigns_def)
  from 1 2 3 4
    bindOptions_order [of "[]" "[?f]" "{F_Filter}" "[?g]" "{F_Skip}" F_Filter
      "In_M (Some [''name'' \<mapsto> VString ''a''])" ?f "[?g]" "{F_Skip}"
      "[\<lambda>opt. opt\<lparr>Filter := Some [''name'' \<mapsto> VString ''z'']\<rparr>]"]
  have 5: "bindOptions ([?f] @ [?g]) = bindOptions ([?g] @ [?f])"
    and 6: "field_of F_Filter
     (bindOptions ([\<lambda>opt. opt\<lparr>Filter := Some [''name'' \<mapsto> VString ''z'']\<rparr>] @ ?f # [?g]))
     = In_M (Some [''name'' \<mapsto> VString ''a''])"
    by blast+
  from f g 3 4 5 6 show ?thesis by (intro conjI)
qed

section \<open>Finding\<close>

text \<open>
  Claim C6. \<^verbatim>\<open>findOptions\<close> copies the four fields \<^verbatim>\<open>Sort\<close>, \<^verbatim>\<open>Skip\<close>, \<^verbatim>\<open>Limit\<close> and
  \<^verbatim>\<open>Projection\<close> of the option and reads nothing else. When no mutator changes \<^verbatim>\<open>Skip\<close>
  (or \<^verbatim>\<open>Limit\<close>), the derived parameter is the \<^verbatim>\<open>nil\<close> pointer, not a pointer to zero.
  \<^verbatim>\<open>FindMany\<close> calls the driver's \<^verbatim>\<open>Find\<close> with the bound filter and these
  parameters, and then reads the cursor unless \<^verbatim>\<open>Find\<close> failed.
\<close>

theorem find_parameters:
  "findOptions opt =
     \<lparr>fo_Sort = VM (Sort opt), fo_Skip = Skip opt, fo_Limit = Limit opt,
      fo_Projection = VM (Projection opt)\<rparr> \<and>
   ((\<forall>f\<in>set options. \<forall>opt'. Skip (f opt') = Skip opt') \<longrightarrow>
      fo_Skip (findOptions (bindOptions options)) = None) \<and>
   ((\<forall>f\<in>set options. \<forall>opt'. Limit (f opt') = Limit opt') \<longrightarrow>
      fo_Limit (findOptions (bindOptions options)) = None) \<and>
   FindMany c options w =
     (case call (c_Find c (Filter (bindOptions options)) (findOptions (bindOptions options))) w of
        (Inl err, w1) \<Rightarrow> (Inl err, w1)
      | (Inr cursor, w1) \<Rightarrow> call (c_All c cursor) w1)"
proof (intro conjI impI)
  show "findOptions opt =
     \<lparr>fo_Sort = VM (Sort opt), fo_Skip = Skip opt, fo_Limit = Limit opt,
      fo_Projection = VM (Projection opt)\<rparr>"
    by (simp add: findOptions_def)
next
  assume "\<forall>f\<in>set options. \<forall>opt'. Skip (f opt') = Skip opt'"
  then have "Skip (bindLoop zero_option options) = Skip zero_option"
    by (rule bindLoop_keeps)
  then show "fo_Skip (findOptions (bindOptions options)) = None"
    by (simp add: findOptions_def bindOptions_def zero_option_def)
next
  assume "\<forall>f\<in>set options. \<forall>opt'. Limit (f opt') = Limit opt'"
  then have "Limit (bindLoop zero_option options) = Limit zero_option"
    by (rule bindLoop_keeps)
  then show "fo_Limit (findOptions (bindOptions options)) = None"
    by (simp add: findOptions_def bindOptions_def zero_option_def)
next
  show "FindMany c options w =
     (case call (c_Find c (Filter (bindOptions options)) (findOptions (bindOptions options))) w of
        (Inl err, w1) \<Rightarrow> (Inl err, w1)
      | (Inr cursor, w1) \<Rightarrow> call (c_All c cursor) w1)"
    by (simp add: FindMany_def Let_def split: prod.splits sum.splits)
qed

text \<open>
  Mutators that set the filter and the sort order only: the recording driver receives
  a \<^verbatim>\<open>Find\<close> with the filter, the sort order, no offset, no row cap and the \<^verbatim>\<open>nil\<close>
  projection map, and then the read of the cursor.
\<close>

theorem find_parameters_witness:
  "(\<forall>opt'::option'. Skip (opt'\<lparr>Filter := Some [''name'' \<mapsto> VString ''a'']\<rparr>) = Skip opt') \<and>
   (\<forall>opt'::option'. Skip (opt'\<lparr>Sort := Some [''name'' \<mapsto> VInt64 1]\<rparr>) = Skip opt') \<and>
   (\<forall>opt'::option'. Limit (opt'\<lparr>Filter := Some [''name'' \<mapsto> VString ''a'']\<rparr>) = Limit opt') \<and>
   (\<forall>opt'::option'. Limit (opt'\<lparr>Sort := Some [''name'' \<mapsto> VInt64 1]\<rparr>) = Limit opt') \<and>
   FindMany (recorder '''')
     [\<lambda>opt. opt\<lparr>Filter := Some [''name'' \<mapsto> VString ''a'']\<rparr>,
      \<lambda>opt. opt\<lparr>Sort := Some [''name'' \<mapsto> VInt64 1]\<rparr>] ticking =
     (Inr [], ticking\<lparr>db :=
        [Req_Find (Some [''name'' \<mapsto> VString ''a''])
           \<lparr>fo_Sort = VM (Some [''name'' \<mapsto> VInt64 1]), fo_Skip = None, fo_Limit = None,
            fo_Projection = VM None\<rparr>,
         Req_All]\<rparr>)"
proof -
  let ?o = "[\<lambda>opt::option'. opt\<lparr>Filter := Some [''name'' \<mapsto> VString ''a'']\<rparr>,
             \<lambda>opt. opt\<lparr>Sort := Some [''name'' \<mapsto> VInt64 1]\<rparr>]"
  have s: "\<forall>f\<in>set ?o. \<forall>opt'. Skip (f opt') = Skip opt'" by simp
  have l: "\<forall>f\<in>set ?o. \<forall>opt'. Limit (f opt') = Limit opt'" by simp
  note t = find_parameters [of "bindOptions ?o" ?o "recorder ''''" ticking]
  from s t have 1: "fo_Skip (findOptions (bindOptions ?o)) = None" by blast
  from l t have 2: "fo_Limit (findOptions (bindOptions ?o)) = None" by blast
  from t have 3: "findOptions (bindOptions ?o) =
     \<lparr>fo_Sort = VM (Sort (bindOptions ?o)), fo_Skip = Skip (bindOptions ?o), fo_Limit = Limit (bindOptions ?o),
      fo_Projection = VM (Projection (bindOptions ?o))\<rparr>" by blast
  from t have 4: "FindMany (recorder '''') ?o ticking =
     (case call (c_Find (recorder '''') (Filter (bindOptions ?o)) (findOptions (bindOptions ?o))) ticking of
        (Inl err, w1) \<Rightarrow> (Inl err, w1)
      | (Inr cursor, w1) \<Rightarrow> call (c_All (recorder '''') cursor) w1)" by blast
  have 5: "FindMany (recorder '''') ?o ticking =
     (Inr [], ticking\<lparr>db :=
        [Req_Find (Some [''name'' \<mapsto> VString ''a''])
           \<lparr>fo_Sort = VM (Some [''name'' \<mapsto> VInt64 1]), fo_Skip = None, fo_Limit = None,
            fo_Projection = VM None\<rparr>,
         Req_All]\<rparr>)"
    unfolding 4 3 using 1 2
    by (simp add: call_simp recorder_def ticking_def bindOptions_def zero_option_def findOptions_def)
  from 5 show ?thesis by simp
qed

text \<open>
  Claim C10. \<^verbatim>\<open>FindOne\<close> makes one call of the driver's \<^verbatim>\<open>FindOne\<close>, with the bound
  filter as its only argument, and returns what \<^verbatim>\<open>Decode\<close> gives for the reply. Two
  sequences of mutators whose bound options have the same filter therefore give the
  same call and the same result, whatever they put in the other fields.
\<close>

theorem FindOne_filter_only:
  "FindOne c options w =
     (case c_FindOne c (Filter (bindOptions options)) (db w) of
        (sr, s) \<Rightarrow> (Decode sr (zero_T c), w\<lparr>db := s\<rparr>)) \<and>
   (Filter (bindOptions options) = Filter (bindOptions options') \<longrightarrow>
      FindOne c options w = FindOne c options' w)"
  by (simp add: FindOne_def call_def Let_def split: prod.splits)

text \<open>
  Mutators that set all of filter, sort order, projection, offset, row cap and pipeline
  against the mutator that sets the same filter alone: the recording driver receives
  the same single request.
\<close>

theorem FindOne_filter_only_witness:
  "Filter (bindOptions
      [\<lambda>opt. opt\<lparr>Filter := Some [''name'' \<mapsto> VString ''a'']\<rparr>,
       \<lambda>opt. opt\<lparr>Sort := Some [''name'' \<mapsto> VInt64 1]\<rparr>,
       \<lambda>opt. opt\<lparr>Projection := Some [''name'' \<mapsto> VInt64 1]\<rparr>,
       \<lambda>opt. opt\<lparr>Skip := Some 2\<rparr>,
       \<lambda>opt. opt\<lparr>Limit := Some 5\<rparr>,
       \<lambda>opt. opt\<lparr>Pipeline := Some [Some [''$match'' \<mapsto> VM (Some Map.empty)]]\<rparr>]) =
   Filter (bindOptions [\<lambda>opt. opt\<lparr>Filter := Some [''name'' \<mapsto> VString ''a'']\<rparr>]) \<and>
   FindOne (recorder '''')
      [\<lambda>opt. opt\<lparr>Filter := Some [''name'' \<mapsto> VString ''a'']\<rparr>,
       \<lambda>opt. opt\<lparr>Sort := Some [''name'' \<mapsto> VInt64 1]\<rparr>,
       \<lambda>opt. opt\<lparr>Projection := Some [''name'' \<mapsto> VInt64 1]\<rparr>,
       \<lambda>opt. opt\<lparr>Skip := Some 2\<rparr>,
       \<lambda>opt. opt\<lparr>Limit := Some 5\<rparr>,
       \<lambda>opt. opt\<lparr>Pipeline := Some [Some [''$match'' \<mapsto> VM (Some Map.empty)]]\<rparr>] ticking =
   FindOne (recorder '''') [\<lambda>opt. opt\<lparr>Filter := Some [''name'' \<mapsto> VString ''a'']\<rparr>] ticking \<and>
   db (snd (FindOne (recorder '''') [\<lambda>opt. opt\<lparr>Filter := Some [''name'' \<mapsto> VString ''a'']\<rparr>] ticking)) =
     [Req_FindOne (Some [''name'' \<mapsto> VString ''a''])]"
proof -
  let ?a = "[\<lambda>opt::option'. opt\<lparr>Filter := Some [''name'' \<mapsto> VString ''a'']\<rparr>,
       \<lambda>opt. opt\<lparr>Sort := Some [''name'' \<mapsto> VInt64 1]\<rparr>,
       \<lambda>opt. opt\<lparr>Projection := Some [''name'' \<mapsto> VInt64 1]\<rparr>,
       \<lambda>opt. opt\<lparr>Skip := Some 2\<rparr>,
       \<lambda>opt. opt\<lparr>Limit := Some 5\<rparr>,
       \<lambda>opt. opt\<lparr>Pipeline := Some [Some [''$match'' \<mapsto> VM (Some Map.empty)]]\<rparr>]"
  let ?b = "[\<lambda>opt::option'. opt\<lparr>Filter := Some [''name'' \<mapsto> VString ''a'']\<rparr>]"
  have h: "Filter (bindOptions ?a) = Filter (bindOptions ?b)"
    by (simp add: bindOptions_def zero_option_def)
  note t = FindOne_filter_only [of "recorder ''''" _ ticking]
  from h t [of ?a ?b] have 1: "FindOne (recorder '''') ?a ticking = FindOne (recorder '''') ?b ticking"
    by blast
  from t [of ?b ?b] have "FindOne (recorder '''') ?b ticking =
     (case c_FindOne (recorder '''') (Filter (bindOptions ?b)) (db ticking) of
        (sr, s) \<Rightarrow> (Decode sr (zero_T (recorder '''')), ticking\<lparr>db := s\<rparr>))"
    by blast
  then have 2: "db (snd (FindOne (recorder '''') ?b ticking)) = [Req_FindOne (Some [''name'' \<mapsto> VString ''a''])]"
    by (simp add: recorder_def ticking_def bindOptions_def zero_option_def)
  from h 1 2 show ?thesis by (intro conjI)
qed

text \<open>
  Claim C8. When the driver's \<^verbatim>\<open>FindOne\<close> finds no document for the bound filter,
  \<^verbatim>\<open>FindOne\<close> returns the pointer to the zero value of \<^verbatim>\<open>T\<close> together with the error
  \<^verbatim>\<open>ErrNoDocuments\<close>, which is not \<^verbatim>\<open>nil\<close>: absence is reported by the error only. In
  every case the error returned is the one \<^verbatim>\<open>Decode\<close> returned.
\<close>

theorem FindOne_not_found:
  "(fst (c_FindOne c (Filter (bindOptions options)) (db w)) = NoDocument \<longrightarrow>
      fst (FindOne c options w) = (zero_T c, Some ErrNoDocuments) \<and>
      snd (fst (FindOne c options w)) \<noteq> None) \<and>
   snd (fst (FindOne c options w)) =
     snd (Decode (fst (c_FindOne c (Filter (bindOptions options)) (db w))) (zero_T c))"
  by (simp add: FindOne_def call_def Let_def split: prod.splits)

text \<open>The recording driver answers every \<^verbatim>\<open>FindOne\<close> with no document.\<close>

theorem FindOne_not_found_witness:
  "fst (c_FindOne (recorder ''zero'') (Filter (bindOptions [\<lambda>opt. opt\<lparr>Filter := Some [''name'' \<mapsto> VString ''a'']\<rparr>]))
         (db ticking)) = NoDocument \<and>
   fst (FindOne (recorder ''zero'') [\<lambda>opt. opt\<lparr>Filter := Some [''name'' \<mapsto> VString ''a'']\<rparr>] ticking)
     = (''zero'', Some ErrNoDocuments)"
proof -
  let ?o = "[\<lambda>opt::option'. opt\<lparr>Filter := Some [''name'' \<mapsto> VString ''a'']\<rparr>]"
  have h: "fst (c_FindOne (recorder ''zero'') (Filter (bindOptions ?o)) (db ticking)) = NoDocument"
    by (simp add: recorder_def)
  have z: "zero_T (recorder ''zero'') = ''zero''" by (simp add: recorder_def)
  from h FindOne_not_found [of "recorder ''zero''" ?o ticking] z show ?thesis by simp
qed

section \<open>Loading the configuration\<close>

text \<open>
  Claim C5, as the code has it. None of the five fields of \<^verbatim>\<open>config\<close> is tagged as
  required, so \<^verbatim>\<open>readConfig\<close> never fails: each field receives the value found for its
  key, or stays empty when there is none. \<^verbatim>\<open>connect\<close> then always goes on to
  \<^verbatim>\<open>mongo.Connect\<close>, with the hosts obtained by splitting \<^verbatim>\<open>Addrs\<close> at the commas and the
  credentials as loaded, and to \<^verbatim>\<open>Ping\<close> when the connection was made.
\<close>

theorem config_loading:
  "readConfig env =
     Inr \<lparr>Addrs = or_empty (env_value env ''ADDRS''), Name = or_empty (env_value env ''NAME''),
          AuthSource = or_empty (env_value env ''AUTH_SOURCE''), User = or_empty (env_value env ''USER''),
          Password = or_empty (env_value env ''PASSWORD'')\<rparr> \<and>
   connect m env n =
     Inr (case mongo_Connect m
                 \<lparr>co_Hosts = Split (or_empty (env_value env ''ADDRS'')) CHR '','',
                  co_ConnectTimeout = 5, co_SocketTimeout = 5,
                  co_Auth = \<lparr>cred_AuthSource = or_empty (env_value env ''AUTH_SOURCE''),
                             cred_Username = or_empty (env_value env ''USER''),
                             cred_Password = or_empty (env_value env ''PASSWORD'')\<rparr>\<rparr> n of
            (Inl err, n1) \<Rightarrow> (Inl err, n1)
          | (Inr cl, n1) \<Rightarrow>
              (case mongo_Ping m cl n1 of
                 (Some err, n2) \<Rightarrow> (Inl err, n2)
               | (None, n2) \<Rightarrow> (Inr \<lparr>Client = cl, dbName = or_empty (env_value env ''NAME'')\<rparr>, n2)))"
  by (simp add: connect_def readConfig_total client_options_def Let_def
      split: prod.splits sum.splits option.splits)

text \<open>
  The claim as the specification states it asks loading to fail when a value is absent.
  With the four other values set and no \<^verbatim>\<open>ADDRS\<close>, loading succeeds with an empty
  \<^verbatim>\<open>Addrs\<close>, and the network receives a connection attempt to the single empty host.
\<close>

theorem config_loading_counterexample:
  "env_value (map_of [(''MGO_NAME'', ''shop''), (''MGO_AUTH_SOURCE'', ''admin''),
                      (''MGO_USER'', ''u''), (''MGO_PASSWORD'', ''p'')]) ''ADDRS'' = None \<and>
   readConfig (map_of [(''MGO_NAME'', ''shop''), (''MGO_AUTH_SOURCE'', ''admin''),
                       (''MGO_USER'', ''u''), (''MGO_PASSWORD'', ''p'')]) =
     Inr \<lparr>Addrs = [], Name = ''shop'', AuthSource = ''admin'', User = ''u'', Password = ''p''\<rparr> \<and>
   connect open_network
       (map_of [(''MGO_NAME'', ''shop''), (''MGO_AUTH_SOURCE'', ''admin''),
                (''MGO_USER'', ''u''), (''MGO_PASSWORD'', ''p'')]) [] =
     Inr (Inr \<lparr>Client = (), dbName = ''shop''\<rparr>,
          [\<lparr>co_Hosts = [[]], co_ConnectTimeout = 5, co_SocketTimeout = 5,
            co_Auth = \<lparr>cred_AuthSource = ''admin'', cred_Username = ''u'', cred_Password = ''p''\<rparr>\<rparr>])"
  by (simp add: connect_def readConfig_total env_value_def or_empty_def client_options_def open_network_def)

end
